theory Spec2Isabelle
  imports Complex_Main
begin

section \<open>Values, strings and errors\<close>

text \<open>
  JavaScript strings are modelled as \<^typ>\<open>string\<close>: one \<^typ>\<open>char\<close> per code unit, which
  covers the code units below 256. Every \<open>throw\<close> and every rejected promise of the
  source is a value \<open>Inl e\<close> of the result type \<open>error + 'a\<close>.
\<close>

datatype error =
    MissingEnvVar string      \<comment> \<open>\<open>Error(`Missing required env var: ${name}`)\<close>\<close>
  | PdokRequestFailed nat     \<comment> \<open>\<open>Error(`PDOK request failed with status ${status}`)\<close>\<close>
  | PdokNoPostcode string     \<comment> \<open>\<open>Error(`PDOK: No postcode found for query: ${query}`)\<close>\<close>
  | NotIterable               \<comment> \<open>the TypeError of \<open>for (const doc of docs)\<close> on a non-iterable value\<close>
  | Thrown string             \<comment> \<open>an error raised by a library call (time-out, network, JSON syntax)\<close>

section \<open>Environment variables (src/unnamed/part_001, src/tests/e2e.spec.ts)\<close>

text \<open>
  The characters that \<open>String.prototype.trim\<close> strips, as far as \<^typ>\<open>char\<close> can
  represent them: TAB, LF, VT, FF, CR, SPACE and NBSP.
\<close>

definition is_js_whitespace :: "char \<Rightarrow> bool" where
  "is_js_whitespace c \<longleftrightarrow>
     c \<in> {CHR 0x09, CHR 0x0A, CHR 0x0B, CHR 0x0C, CHR 0x0D, CHR 0x20, CHR 0xA0}"

definition trim :: "string \<Rightarrow> string" where
  "trim s = rev (dropWhile is_js_whitespace (rev (dropWhile is_js_whitespace s)))"

text \<open>
  \<open>process.env\<close> is a map from names to strings; an unset variable reads as
  \<open>undefined\<close>, here \<open>None\<close>. \<open>!value\<close> holds for \<open>undefined\<close> and for the empty string.
\<close>

definition requireEnv :: "(string \<rightharpoonup> string) \<Rightarrow> string \<Rightarrow> error + string" where
  "requireEnv env name =
     (case env name of
        None \<Rightarrow> Inl (MissingEnvVar name)
      | Some v \<Rightarrow>
          if v = [] \<or> trim v = [] then Inl (MissingEnvVar name)
          else Inr (trim v))"

section \<open>Date formatting (src/tests/e2e.spec.ts)\<close>

text \<open>
  \<open>s.replace(/c/g, r)\<close> for a pattern that is one literal character: the scan starts at
  index 0, every match is replaced by \<open>r\<close>, and the search resumes behind the match.
\<close>

fun replace_all_char :: "char \<Rightarrow> string \<Rightarrow> string \<Rightarrow> string" where
  "replace_all_char c r [] = []"
| "replace_all_char c r (x # xs) =
     (if x = c then r @ replace_all_char c r xs else x # replace_all_char c r xs)"

definition formatDateToDutchLocale :: "string \<Rightarrow> string" where
  "formatDateToDutchLocale dotDate = replace_all_char (CHR ''.'') ''-'' dotDate"

section \<open>Postal-code lookup (src/utils/pdok.ts)\<close>

text \<open>
  The value that \<open>response.json()\<close> yields, with \<open>undefined\<close> added for the result of
  reading a property that is not there.
\<close>

datatype jsvalue =
    JUndefined
  | JNull
  | JBool bool
  | JNum real
  | JStr string
  | JArr "jsvalue list"
  | JObj "(string \<times> jsvalue) list"

text \<open>
  \<open>x?.k\<close> for the property names the lookup reads (\<open>response\<close>, \<open>docs\<close>, \<open>postcode\<close>,
  \<open>postalcode\<close>, \<open>pc6\<close>): none of them is a built-in property of a string, a number, a
  boolean or an array, so only an object that has the key yields a value.
\<close>

fun opt_get :: "jsvalue \<Rightarrow> string \<Rightarrow> jsvalue" where
  "opt_get (JObj kvs) k = (case map_of kvs k of None \<Rightarrow> JUndefined | Some v \<Rightarrow> v)"
| "opt_get v k = JUndefined"

fun truthy :: "jsvalue \<Rightarrow> bool" where
  "truthy JUndefined = False"
| "truthy JNull = False"
| "truthy (JBool b) = b"
| "truthy (JNum x) = (x \<noteq> 0)"
| "truthy (JStr s) = (s \<noteq> [])"
| "truthy (JArr xs) = True"
| "truthy (JObj kvs) = True"

definition js_or :: "jsvalue \<Rightarrow> jsvalue \<Rightarrow> jsvalue" where
  "js_or a b = (if truthy a then a else b)"

text \<open>What \<open>for (const doc of v)\<close> iterates over: the elements of an array, the characters
  of a string; any other value is not iterable.\<close>

fun iterate :: "jsvalue \<Rightarrow> error + jsvalue list" where
  "iterate (JArr xs) = Inr xs"
| "iterate (JStr s) = Inr (map (\<lambda>c. JStr [c]) s)"
| "iterate v = Inl NotIterable"

definition doc_postcode :: "jsvalue \<Rightarrow> jsvalue" where
  "doc_postcode doc =
     js_or (js_or (opt_get doc ''postcode'') (opt_get doc ''postalcode'')) (opt_get doc ''pc6'')"

text \<open>The loop over the docs: it returns at the first doc whose postcode is truthy.\<close>

fun first_postcode :: "jsvalue list \<Rightarrow> jsvalue option" where
  "first_postcode [] = None"
| "first_postcode (doc # docs) =
     (let postcode = doc_postcode doc
      in if truthy postcode then Some postcode else first_postcode docs)"

text \<open>\<open>encodeURIComponent\<close> on code units below 256: the unreserved characters stay, every
  other character becomes the percent-encoded bytes of its UTF-8 form.\<close>

definition uri_unreserved :: "char \<Rightarrow> bool" where
  "uri_unreserved c \<longleftrightarrow>
     c \<in> set (''ABCDEFGHIJKLMNOPQRSTUVWXYZabcdefghijklmnopqrstuvwxyz0123456789-_.!~*()''
              @ [CHR 0x27])"

definition percent_byte :: "nat \<Rightarrow> string" where
  "percent_byte n =
     [CHR ''%'', ''0123456789ABCDEF'' ! (n div 16 mod 16), ''0123456789ABCDEF'' ! (n mod 16)]"

definition encode_code_unit :: "char \<Rightarrow> string" where
  "encode_code_unit c =
     (let n = (of_char c :: nat)
      in if uri_unreserved c then [c]
         else if n < 128 then percent_byte n
         else percent_byte (192 + n div 64) @ percent_byte (128 + n mod 64))"

definition encodeURIComponent :: "string \<Rightarrow> string" where
  "encodeURIComponent s = concat (map encode_code_unit s)"

record response =
  resp_ok :: bool                    \<comment> \<open>\<open>response.ok()\<close>\<close>
  resp_status :: nat                 \<comment> \<open>\<open>response.status()\<close>\<close>
  resp_json :: "error + jsvalue"     \<comment> \<open>\<open>await response.json()\<close>, which throws on a body that is not JSON\<close>

text \<open>The \<open>APIRequestContext\<close> is a parameter: \<open>request.get(url)\<close> yields a response or throws.\<close>

type_synonym request = "string \<Rightarrow> error + response"

definition pdok_query :: "string \<Rightarrow> string \<Rightarrow> string \<Rightarrow> string" where
  "pdok_query street houseNumber city = street @ '' '' @ houseNumber @ '', '' @ city"

definition pdok_lookup_url :: "string \<Rightarrow> string" where
  "pdok_lookup_url query =
     ''https://api.pdok.nl/bzk/locatieserver/search/v3_1/free?q=''
       @ encodeURIComponent query @ ''&rows=5''"

definition response_docs :: "jsvalue \<Rightarrow> jsvalue" where
  "response_docs responseData =
     js_or (opt_get (opt_get responseData ''response'') ''docs'') (JArr [])"

definition pdokLookupPostalCode ::
    "request \<Rightarrow> string \<Rightarrow> string \<Rightarrow> string \<Rightarrow> error + jsvalue" where
  "pdokLookupPostalCode request street houseNumber city =
     (let query = pdok_query street houseNumber city;
          lookupUrl = pdok_lookup_url query
      in case request lookupUrl of
           Inl e \<Rightarrow> Inl e
         | Inr response \<Rightarrow>
             if \<not> resp_ok response then Inl (PdokRequestFailed (resp_status response))
             else
               (case resp_json response of
                  Inl e \<Rightarrow> Inl e
                | Inr responseData \<Rightarrow>
                    (case iterate (response_docs responseData) of
                       Inl e \<Rightarrow> Inl e
                     | Inr docs \<Rightarrow>
                         (case first_postcode docs of
                            Some postcode \<Rightarrow> Inr postcode
                          | None \<Rightarrow> Inl (PdokNoPostcode query)))))"

text \<open>Vocabulary of the lookup's contract: the candidate docs a response returns (none when
  the body is not JSON or holds no iterable \<open>response.docs\<close>), and a doc that carries a
  postal code under one of the known field names.\<close>

definition candidate_docs :: "response \<Rightarrow> jsvalue list" where
  "candidate_docs r =
     (case resp_json r of
        Inl e \<Rightarrow> []
      | Inr responseData \<Rightarrow>
          (case iterate (response_docs responseData) of Inl e \<Rightarrow> [] | Inr docs \<Rightarrow> docs))"

definition carries_postcode :: "jsvalue \<Rightarrow> bool" where
  "carries_postcode doc \<longleftrightarrow>
     (\<exists>k \<in> {''postcode'', ''postalcode'', ''pc6''}. truthy (opt_get doc k))"

definition stub_response :: response where
  "stub_response =
     \<lparr>resp_ok = True, resp_status = 200,
      resp_json = Inr (JObj [(''response'', JObj [(''docs'', JArr [JObj [(''pc6'', JStr ''1017GB'')]])])])\<rparr>"

section \<open>The page as the source drives it (src/utils/elements.ts, src/unnamed/part_002)\<close>

subsection \<open>Locators and browser calls\<close>

text \<open>
  A Playwright locator is a description of how to find elements, resolved anew by every
  call made on it; the model keeps it as the term the source builds. The arguments
  \<open>labelText\<close> and \<open>groupLabel\<close> of the radio and checkbox operations are
  \<open>string | RegExp\<close>.
\<close>

datatype matcher = Text string | RegExp string

datatype locator =
    Page
  | GetByRole locator string matcher bool
      \<comment> \<open>\<open>scope.getByRole(role, { name, exact })\<close>, \<open>exact\<close> being false when left out\<close>
  | GetByLabel locator matcher bool
      \<comment> \<open>\<open>scope.getByLabel(text, { exact })\<close>\<close>
  | Locator locator string "matcher option" "locator option"
      \<comment> \<open>\<open>scope.locator(selector, { hasText, has })\<close>\<close>
  | First locator
  | Last locator

text \<open>The calls the source makes on the page; a time-out is in milliseconds, \<open>None\<close> where
  the source passes none.\<close>

datatype call =
    WaitForVisible locator nat          \<comment> \<open>\<open>waitFor({ state: 'visible', timeout })\<close>\<close>
  | Click locator "nat option"
  | Fill locator string
  | InputValue locator
  | PressSequentially locator string
  | Press locator string
  | GetAttribute locator string
  | Check locator "nat option"
  | ScrollIntoViewIfNeeded locator
  | EvaluateClick locator               \<comment> \<open>\<open>evaluate((el) => el.click())\<close>\<close>
  | ExpectToBeVisible locator "nat option"
  | ExpectToBeEnabled locator "nat option"
  | ExpectToHaveValue locator string
  | WaitForLoadState string
  | WaitForTimeout nat
  | ConsoleLog string

fun call_locator :: "call \<Rightarrow> locator option" where
  "call_locator (WaitForVisible l t) = Some l"
| "call_locator (Click l t) = Some l"
| "call_locator (Fill l v) = Some l"
| "call_locator (InputValue l) = Some l"
| "call_locator (PressSequentially l v) = Some l"
| "call_locator (Press l k) = Some l"
| "call_locator (GetAttribute l n) = Some l"
| "call_locator (Check l t) = Some l"
| "call_locator (ScrollIntoViewIfNeeded l) = Some l"
| "call_locator (EvaluateClick l) = Some l"
| "call_locator (ExpectToBeVisible l t) = Some l"
| "call_locator (ExpectToBeEnabled l t) = Some l"
| "call_locator (ExpectToHaveValue l v) = Some l"
| "call_locator (WaitForLoadState st) = None"
| "call_locator (WaitForTimeout t) = None"
| "call_locator (ConsoleLog m) = None"

text \<open>
  The browser is a parameter: a state of any type \<open>'s\<close> and, for every call, its outcome
  (done or thrown) and the next state. \<open>act\<close> answers the calls that return nothing,
  \<open>inputValue\<close> and \<open>getAttribute\<close> the two that return a value.
\<close>

record 's browser =
  act :: "call \<Rightarrow> 's \<Rightarrow> (error + unit) \<times> 's"
  inputValue :: "locator \<Rightarrow> 's \<Rightarrow> (error + string) \<times> 's"
  getAttribute :: "locator \<Rightarrow> string \<Rightarrow> 's \<Rightarrow> (error + string option) \<times> 's"

subsection \<open>Sequencing, exceptions and the call log\<close>

text \<open>
  An \<open>async\<close> function is a program on the browser state paired with the log of the
  calls made so far (the instrumentation of a test double); \<open>await\<close> in sequence is
  \<open>seq\<close> and \<open>bind_value\<close>, \<open>try { p } catch { q }\<close> is \<open>try_catch p q\<close>.
\<close>

type_synonym ('s, 'a) prog = "'s \<times> call list \<Rightarrow> (error + 'a) \<times> ('s \<times> call list)"


definition bind_value :: "('s, 'a) prog \<Rightarrow> ('a \<Rightarrow> ('s, 'b) prog) \<Rightarrow> ('s, 'b) prog" where
  "bind_value m f = (\<lambda>st. case m st of (Inl e, st') \<Rightarrow> (Inl e, st') | (Inr x, st') \<Rightarrow> f x st')"

definition seq :: "('s, unit) prog \<Rightarrow> ('s, 'b) prog \<Rightarrow> ('s, 'b) prog" where
  "seq m n = bind_value m (\<lambda>u. n)"

definition try_catch :: "('s, 'a) prog \<Rightarrow> ('s, 'a) prog \<Rightarrow> ('s, 'a) prog" where
  "try_catch p q = (\<lambda>st. case p st of (Inl e, st') \<Rightarrow> q st' | (Inr x, st') \<Rightarrow> (Inr x, st'))"

definition perform :: "'s browser \<Rightarrow> call \<Rightarrow> ('s, unit) prog" where
  "perform b c = (\<lambda>(s, tr). case act b c s of (r, s') \<Rightarrow> (r, (s', tr @ [c])))"


definition read_attribute :: "'s browser \<Rightarrow> locator \<Rightarrow> string \<Rightarrow> ('s, string option) prog" where
  "read_attribute b l n =
     (\<lambda>(s, tr). case getAttribute b l n s of (r, s') \<Rightarrow> (r, (s', tr @ [GetAttribute l n])))"

definition console_log :: "string \<Rightarrow> ('s, unit) prog" where
  "console_log m = (\<lambda>(s, tr). (Inr (), (s, tr @ [ConsoleLog m])))"

text \<open>The truthiness of \<open>string | null\<close>, as \<open>forAttr ? \<dots> : \<dots>\<close> tests it: \<open>null\<close> and
  the empty string are falsy.\<close>

fun attr_truthy :: "string option \<Rightarrow> bool" where
  "attr_truthy None = False"
| "attr_truthy (Some a) = (a \<noteq> [])"

subsection \<open>waitForStableLoad\<close>

definition waitForStableLoad :: "'s browser \<Rightarrow> ('s, unit) prog" where
  "waitForStableLoad b =
     seq (perform b (WaitForLoadState ''networkidle'')) (perform b (WaitForTimeout 250))"

subsection \<open>selectMatOption\<close>

definition role_option :: "string \<Rightarrow> locator" where
  "role_option optionText = GetByRole Page ''option'' (Text optionText) True"

definition mat_option :: "string \<Rightarrow> locator" where
  "mat_option optionText = First (Locator Page ''mat-option'' (Some (Text optionText)) None)"

definition text_option :: "string \<Rightarrow> locator" where
  "text_option optionText = First (Locator Page (''text=\"'' @ optionText @ ''\"'') None None)"

definition select_option_by_role :: "'s browser \<Rightarrow> string \<Rightarrow> ('s, unit) prog" where
  "select_option_by_role b optionText =
     (let option = role_option optionText
      in seq (perform b (WaitForVisible option 1000)) (perform b (Click option (Some 1000))))"

definition select_option_by_mat_option :: "'s browser \<Rightarrow> string \<Rightarrow> ('s, unit) prog" where
  "select_option_by_mat_option b optionText =
     (let option = mat_option optionText
      in seq (perform b (WaitForVisible option 1000)) (perform b (Click option (Some 1000))))"

definition select_option_by_text :: "'s browser \<Rightarrow> string \<Rightarrow> ('s, unit) prog" where
  "select_option_by_text b optionText =
     (let fallback = text_option optionText
      in seq (perform b (WaitForVisible fallback 1000)) (perform b (Click fallback None)))"

definition selectMatOption :: "'s browser \<Rightarrow> string \<Rightarrow> ('s, unit) prog" where
  "selectMatOption b optionText =
     try_catch (select_option_by_role b optionText)
       (try_catch (select_option_by_mat_option b optionText)
          (select_option_by_text b optionText))"

subsection \<open>setInputValue and fillTextByLabel\<close>


definition label_field :: "string \<Rightarrow> locator" where
  "label_field labelText = GetByLabel Page (Text labelText) True"

definition raw_label :: "string \<Rightarrow> locator" where
  "raw_label labelText =
     First (Locator Page (''label:has-text(\"'' @ labelText @ ''\")'') None None)"

definition raw_input :: "locator \<Rightarrow> string option \<Rightarrow> locator" where
  "raw_input label forAttr =
     (if attr_truthy forAttr then Locator Page (''#'' @ the forAttr) None None
      else First (Locator (Locator label ''xpath=..'' None None) ''input, textarea'' None None))"




subsection \<open>selectMatOptionByLabel\<close>

definition select_container :: "string \<Rightarrow> locator" where
  "select_container labelText =
     Locator Page ''bq-select'' None
       (Some (Locator Page (''label:has-text(\"'' @ labelText @ ''\")'') None None))"

definition select_trigger :: "string \<Rightarrow> locator" where
  "select_trigger labelText =
     Locator (select_container labelText) ''.mat-mdc-select-trigger'' None None"





subsection \<open>setRadioByLabel\<close>

definition radio_role_option :: "matcher \<Rightarrow> string \<Rightarrow> locator" where
  "radio_role_option groupLabel optionText =
     GetByLabel (GetByRole Page ''radiogroup'' groupLabel False) (Text optionText) True"

definition radio_container :: "matcher \<Rightarrow> locator" where
  "radio_container groupLabel =
     Locator Page ''bq-radio-button'' None (Some (Locator Page ''label'' (Some groupLabel) None))"

definition radio_option_label :: "matcher \<Rightarrow> string \<Rightarrow> locator" where
  "radio_option_label groupLabel optionText =
     First (Locator (radio_container groupLabel) ''label'' (Some (Text optionText)) None)"





subsection \<open>setCheckboxByLabel\<close>

definition checkbox_role :: "matcher \<Rightarrow> locator" where
  "checkbox_role labelText = GetByRole Page ''checkbox'' labelText False"

definition checkbox_label_field :: "matcher \<Rightarrow> locator" where
  "checkbox_label_field labelText = GetByLabel Page labelText True"

definition checkbox_container :: "matcher \<Rightarrow> locator" where
  "checkbox_container labelText =
     Locator Page ''bq-checkbox'' None (Some (Locator Page ''label'' (Some labelText) None))"

definition checkbox_container_label :: "matcher \<Rightarrow> locator" where
  "checkbox_container_label labelText =
     First (Locator (checkbox_container labelText) ''label'' (Some labelText) None)"

definition checkbox_raw_label :: "matcher \<Rightarrow> locator" where
  "checkbox_raw_label labelText = First (Locator Page ''label'' (Some labelText) None)"

definition checkbox_raw_input :: "locator \<Rightarrow> string option \<Rightarrow> locator" where
  "checkbox_raw_input label forAttr =
     (if attr_truthy forAttr then Locator Page (''#'' @ the forAttr) None None
      else First (Locator label ''input[type=\"checkbox\"]'' None None))"

definition checkbox_by_role :: "'s browser \<Rightarrow> matcher \<Rightarrow> ('s, unit) prog" where
  "checkbox_by_role b labelText = perform b (Check (checkbox_role labelText) (Some 1000))"

definition checkbox_by_label :: "'s browser \<Rightarrow> matcher \<Rightarrow> ('s, unit) prog" where
  "checkbox_by_label b labelText = perform b (Check (checkbox_label_field labelText) (Some 1000))"

definition checkbox_by_component :: "'s browser \<Rightarrow> matcher \<Rightarrow> ('s, unit) prog" where
  "checkbox_by_component b labelText =
     seq (perform b (WaitForVisible (checkbox_container labelText) 1000))
         (perform b (Click (checkbox_container_label labelText) (Some 1000)))"

definition checkbox_by_raw_dom :: "'s browser \<Rightarrow> matcher \<Rightarrow> ('s, unit) prog" where
  "checkbox_by_raw_dom b labelText =
     (let label = checkbox_raw_label labelText
      in seq (perform b (WaitForVisible label 1000))
        (bind_value (read_attribute b label ''for'') (\<lambda>forAttr.
           let input = checkbox_raw_input label forAttr
           in try_catch (perform b (Check input (Some 1000)))
                (perform b (Click label (Some 1000))))))"

definition setCheckboxByLabel :: "'s browser \<Rightarrow> matcher \<Rightarrow> ('s, unit) prog" where
  "setCheckboxByLabel b labelText =
     try_catch (checkbox_by_role b labelText)
       (try_catch (checkbox_by_label b labelText)
          (try_catch (checkbox_by_component b labelText)
             (checkbox_by_raw_dom b labelText)))"

subsection \<open>clickProceed\<close>

definition proceed_button :: "string \<Rightarrow> locator" where
  "proceed_button buttonText = Last (GetByRole Page ''button'' (Text buttonText) False)"

definition click_failed_message :: "string \<Rightarrow> string" where
  "click_failed_message buttonText =
     ''Standard click on \"'' @ buttonText @ ''\" button failed, falling back to DOM click()''"

text \<open>\<open>buttonText\<close> defaults to \<open>'Next'\<close> when the caller passes none.\<close>

definition clickProceed :: "'s browser \<Rightarrow> string option \<Rightarrow> ('s, unit) prog" where
  "clickProceed b buttonTextArg =
     (let buttonText = (case buttonTextArg of None \<Rightarrow> ''Next'' | Some t \<Rightarrow> t);
          button = proceed_button buttonText
      in seq (perform b (ExpectToBeVisible button (Some 10000)))
        (seq (perform b (ExpectToBeEnabled button (Some 10000)))
        (seq (perform b (ScrollIntoViewIfNeeded button))
        (seq (try_catch (perform b (Click button (Some 10000)))
                (seq (console_log (click_failed_message buttonText))
                     (perform b (EvaluateClick button))))
             (waitForStableLoad b)))))"

subsection \<open>Vocabulary of the contracts\<close>



text \<open>
  The three kinds of resolution strategy the specification names, read off a locator:
  the accessible role or label, a wrapper tag of the component library (the custom
  elements \<open>bq-select\<close>, \<open>bq-radio-button\<close>, \<open>bq-checkbox\<close> and the \<open>mat-option\<close> of the
  Material library) or something inside one, and plain DOM selectors.
\<close>

datatype strategy = AccessibleRole | ComponentLibrary | RawDOM

definition component_tags :: "string set" where
  "component_tags = {''bq-select'', ''bq-radio-button'', ''bq-checkbox'', ''mat-option''}"

fun strategy_of :: "locator \<Rightarrow> strategy" where
  "strategy_of Page = RawDOM"
| "strategy_of (GetByRole scope role name exact) = AccessibleRole"
| "strategy_of (GetByLabel scope name exact) = AccessibleRole"
| "strategy_of (Locator scope selector hasText has) =
     (if selector \<in> component_tags \<or> strategy_of scope = ComponentLibrary
      then ComponentLibrary else RawDOM)"
| "strategy_of (First l) = strategy_of l"
| "strategy_of (Last l) = strategy_of l"







text \<open>What \<open>inputValue()\<close> would read in a state: the field's value as the page reports it.\<close>

definition value_in :: "'s browser \<Rightarrow> locator \<Rightarrow> 's \<Rightarrow> error + string" where
  "value_in b l s = fst (inputValue b l s)"

text \<open>
  Two assumptions on a browser under which a fill can be repeated. On a static page,
  whether a call other than a value assertion throws, and what \<open>getAttribute\<close> returns,
  does not depend on the state of the page. On a page of form fields that keep the value
  \<open>v\<close>, read through \<open>inputValue()\<close>: a field that holds \<open>v\<close> still holds it after a
  fill with \<open>v\<close>; the assertion that a field has the value \<open>v\<close> passes when \<open>v\<close> has
  just been read from it, and passes only when the field holds \<open>v\<close>; a field that holds
  \<open>v\<close> still holds it after a call that is neither a fill nor a keystroke entry, and
  after a read; and two locators read either the same field, or two fields of which the
  one that holds \<open>v\<close> still holds it after a write through the other. Nothing is assumed
  on what a fill or a keystroke entry does to a field that holds another value.
\<close>

definition static_page :: "'s browser \<Rightarrow> bool" where
  "static_page b \<longleftrightarrow>
     (\<forall>c s t. (\<forall>l w. c \<noteq> ExpectToHaveValue l w) \<longrightarrow>
        isl (fst (act b c s)) = isl (fst (act b c t))) \<and>
     (\<forall>l n s t. fst (getAttribute b l n s) = fst (getAttribute b l n t))"

fun is_write :: "call \<Rightarrow> bool" where
  "is_write (Fill l w) = True"
| "is_write (PressSequentially l w) = True"
| "is_write c = False"

definition form_fields :: "'s browser \<Rightarrow> string \<Rightarrow> bool" where
  "form_fields b v \<longleftrightarrow>
     (\<forall>l s. value_in b l s = Inr v \<longrightarrow> value_in b l (snd (act b (Fill l v) s)) = Inr v) \<and>
     (\<forall>l s s'. inputValue b l s = (Inr v, s') \<longrightarrow>
        fst (act b (ExpectToHaveValue l v) s') = Inr ()) \<and>
     (\<forall>l s s'. act b (ExpectToHaveValue l v) s = (Inr (), s') \<longrightarrow> value_in b l s' = Inr v) \<and>
     (\<forall>c l s. \<not> is_write c \<and> value_in b l s = Inr v \<longrightarrow>
        value_in b l (snd (act b c s)) = Inr v) \<and>
     (\<forall>l l' s. value_in b l s = Inr v \<longrightarrow> value_in b l (snd (inputValue b l' s)) = Inr v) \<and>
     (\<forall>l l' n s. value_in b l s = Inr v \<longrightarrow>
        value_in b l (snd (getAttribute b l' n s)) = Inr v) \<and>
     (\<forall>l l'. (\<forall>s. value_in b l' s = value_in b l s) \<or>
        (\<forall>c s. is_write c \<and> call_locator c = Some l' \<and> value_in b l s = Inr v \<longrightarrow>
           value_in b l (snd (act b c s)) = Inr v))"

subsection \<open>Test doubles\<close>

text \<open>
  A page with one text field, whose value is the state. \<open>fails\<close> scripts the calls that
  throw, \<open>accepts_fill\<close> says whether the control takes a programmatic bulk-set,
  \<open>for_attr\<close> is the label's \<open>for\<close> attribute and \<open>on_blur\<close> is what the field does
  with its value when a key press moves the focus away.
\<close>

definition scripted_page ::
    "(call \<Rightarrow> bool) \<Rightarrow> bool \<Rightarrow> string option \<Rightarrow> (string \<Rightarrow> string) \<Rightarrow> string browser" where
  "scripted_page fails accepts_fill for_attr on_blur =
     \<lparr>act = (\<lambda>c s.
         if fails c then (Inl (Thrown ''failed''), s)
         else case c of
                Fill l v \<Rightarrow> (Inr (), if accepts_fill \<or> v = [] then v else s)
              | PressSequentially l v \<Rightarrow> (Inr (), s @ v)
              | Press l k \<Rightarrow> (Inr (), on_blur s)
              | ExpectToHaveValue l v \<Rightarrow> (if s = v then Inr () else Inl (Thrown ''toHaveValue''), s)
              | _ \<Rightarrow> (Inr (), s)),
      inputValue = (\<lambda>l s. (Inr s, s)),
      getAttribute = (\<lambda>l n s. (Inr for_attr, s))\<rparr>"

definition plain_page :: "string browser" where
  "plain_page = scripted_page (\<lambda>c. False) True None (\<lambda>v. v)"

text \<open>A postal-code field that normalises its content when it loses the focus.\<close>

definition normalising_page :: "string browser" where
  "normalising_page =
     scripted_page (\<lambda>c. False) True None (\<lambda>v. if v = ''1017gb'' then ''1017 GB'' else v)"





text \<open>
  A page with one checkbox, whose checked state is the state: \<open>check()\<close> leaves it checked,
  a click toggles it, and \<open>fails\<close> scripts the calls that throw.
\<close>

definition checkbox_page :: "(call \<Rightarrow> bool) \<Rightarrow> bool browser" where
  "checkbox_page fails =
     \<lparr>act = (\<lambda>c s.
         if fails c then (Inl (Thrown ''failed''), s)
         else case c of
                Check l t \<Rightarrow> (Inr (), True)
              | Click l t \<Rightarrow> (Inr (), \<not> s)
              | _ \<Rightarrow> (Inr (), s)),
      inputValue = (\<lambda>l s. (Inl (Thrown ''not an input''), s)),
      getAttribute = (\<lambda>l n s. (Inr None, s))\<rparr>"

text \<open>A native checkbox, on which every call succeeds, and a page on which every call
  throws.\<close>

definition native_checkbox_page :: "bool browser" where
  "native_checkbox_page = checkbox_page (\<lambda>c. False)"


text \<open>A custom checkbox component without a native input: no locator of a checkbox
  resolves, so every \<open>check()\<close> times out, and a click on its label toggles it.\<close>

definition custom_checkbox_page :: "bool browser" where
  "custom_checkbox_page = checkbox_page (\<lambda>c. case c of Check l t \<Rightarrow> True | _ \<Rightarrow> False)"

text \<open>
  A page given by its elements in document order, all visible; the state is the list of
  the elements clicked so far. A call succeeds when its locator resolves to one element.
\<close>

record element =
  el_tag :: string
  el_role :: string
  el_text :: string
  el_in_option_list :: bool

text \<open>Playwright matches \<open>hasText\<close> and a role name that is not exact as a substring,
  without regard to case; an exact name and \<open>text="\<dots>"\<close> must match as they are.\<close>

definition lower_case :: "char \<Rightarrow> char" where
  "lower_case c =
     (case map_of (zip ''ABCDEFGHIJKLMNOPQRSTUVWXYZ'' ''abcdefghijklmnopqrstuvwxyz'') c of
        None \<Rightarrow> c
      | Some d \<Rightarrow> d)"

definition contains_text :: "string \<Rightarrow> string \<Rightarrow> bool" where
  "contains_text t s =
     (let t' = map lower_case t; s' = map lower_case s
      in list_ex (\<lambda>i. take (length t') (drop i s') = t') [0..<Suc (length s')])"

fun resolve :: "element list \<Rightarrow> locator \<Rightarrow> nat list" where
  "resolve els (GetByRole Page role (Text n) exact) =
     filter (\<lambda>i. el_role (els ! i) = role \<and>
                 (if exact then el_text (els ! i) = n else contains_text n (el_text (els ! i))))
       [0..<length els]"
| "resolve els (Locator Page selector hasText None) =
     filter (\<lambda>i. (el_tag (els ! i) = selector \<or> selector = ''text=\"'' @ el_text (els ! i) @ ''\"'') \<and>
                 (case hasText of
                    None \<Rightarrow> True
                  | Some (Text t) \<Rightarrow> contains_text t (el_text (els ! i))
                  | Some (RegExp r) \<Rightarrow> False))
       [0..<length els]"
| "resolve els (First l) = take 1 (resolve els l)"
| "resolve els (Last l) = (case resolve els l of [] \<Rightarrow> [] | x # xs \<Rightarrow> [last (x # xs)])"
| "resolve els l = []"

definition dom_page :: "element list \<Rightarrow> nat list browser" where
  "dom_page els =
     \<lparr>act = (\<lambda>c s.
         case c of
           WaitForVisible l t \<Rightarrow>
             (if length (resolve els l) = 1 then Inr () else Inl (Thrown ''waitFor''), s)
         | Click l t \<Rightarrow>
             (case resolve els l of
                [i] \<Rightarrow> (Inr (), s @ [i])
              | _ \<Rightarrow> (Inl (Thrown ''click''), s))
         | _ \<Rightarrow> (Inl (Thrown ''unsupported''), s)),
      inputValue = (\<lambda>l s. (Inl (Thrown ''unsupported''), s)),
      getAttribute = (\<lambda>l n s. (Inl (Thrown ''unsupported''), s))\<rparr>"

text \<open>A paragraph showing the text Slovakia, and further down an open list of countries
  rendered as plain list items.\<close>

definition country_page :: "element list" where
  "country_page =
     [\<lparr>el_tag = ''p'', el_role = '''', el_text = ''Slovakia'', el_in_option_list = False\<rparr>,
      \<lparr>el_tag = ''li'', el_role = '''', el_text = ''Slovenia'', el_in_option_list = True\<rparr>,
      \<lparr>el_tag = ''li'', el_role = '''', el_text = ''Slovakia'', el_in_option_list = True\<rparr>]"

text \<open>An open list of countries rendered by the Material library, each item a
  \<open>mat-option\<close> with the role \<open>option\<close>.\<close>

definition material_page :: "element list" where
  "material_page =
     [\<lparr>el_tag = ''mat-option'', el_role = ''option'', el_text = ''Slovenia'', el_in_option_list = True\<rparr>,
      \<lparr>el_tag = ''mat-option'', el_role = ''option'', el_text = ''Slovakia'', el_in_option_list = True\<rparr>]"

section \<open>Properties of the pure helpers\<close>

lemma trim_split:
  "\<exists>pre post. s = pre @ trim s @ post \<and>
     (\<forall>c \<in> set pre. is_js_whitespace c) \<and> (\<forall>c \<in> set post. is_js_whitespace c)"
proof -
  let ?w = is_js_whitespace
  let ?t = "dropWhile ?w s"
  have a: "s = takeWhile ?w s @ ?t" by simp
  have "rev (takeWhile ?w (rev ?t) @ dropWhile ?w (rev ?t)) = rev (rev ?t)"
    by (simp only: takeWhile_dropWhile_id)
  then have "rev (dropWhile ?w (rev ?t)) @ rev (takeWhile ?w (rev ?t)) = ?t"
    by (simp only: rev_append rev_rev_ident)
  then have b: "?t = trim s @ rev (takeWhile ?w (rev ?t))"
    by (simp only: trim_def)
  have c: "\<forall>c \<in> set (takeWhile ?w s). ?w c" by (auto dest: set_takeWhileD)
  have d: "\<forall>c \<in> set (rev (takeWhile ?w (rev ?t))). ?w c" by (auto dest: set_takeWhileD)
  from a b have "s = takeWhile ?w s @ trim s @ rev (takeWhile ?w (rev ?t))" by simp
  with c d show ?thesis by blast
qed

lemma trim_ends:
  assumes "trim s \<noteq> []"
  shows "\<not> is_js_whitespace (hd (trim s)) \<and> \<not> is_js_whitespace (last (trim s))"
proof -
  let ?w = is_js_whitespace
  let ?t = "dropWhile ?w s"
  let ?u = "dropWhile ?w (rev ?t)"
  from assms have u: "?u \<noteq> []" by (simp add: trim_def)
  then have "\<not> ?w (hd ?u)" by (rule hd_dropWhile)
  with u have l: "\<not> ?w (last (trim s))" by (simp add: trim_def last_rev)
  have t: "?t \<noteq> []"
  proof
    assume e: "?t = []"
    have "dropWhile ?w (rev []) = []" by simp
    then have "?u = []" by (simp only: e)
    with u show False by blast
  qed
  then have h: "\<not> ?w (hd ?t)" by (rule hd_dropWhile)
  obtain post where p: "?t = trim s @ post"
  proof -
    have "rev (takeWhile ?w (rev ?t) @ ?u) = rev (rev ?t)"
      by (simp only: takeWhile_dropWhile_id)
    then have "rev ?u @ rev (takeWhile ?w (rev ?t)) = ?t"
      by (simp only: rev_append rev_rev_ident)
    then have "?t = trim s @ rev (takeWhile ?w (rev ?t))" by (simp only: trim_def)
    then show ?thesis by (rule that)
  qed
  from p assms have "hd ?t = hd (trim s)" by (metis hd_append2)
  with h l show ?thesis by simp
qed

lemma trim_empty_iff: "trim s = [] \<longleftrightarrow> (\<forall>c \<in> set s. is_js_whitespace c)"
proof
  assume "trim s = []"
  with trim_split [of s] show "\<forall>c \<in> set s. is_js_whitespace c" by auto
next
  assume "\<forall>c \<in> set s. is_js_whitespace c"
  then have "dropWhile is_js_whitespace s = []" by (simp only: dropWhile_eq_Nil_conv)
  then show "trim s = []" by (simp only: trim_def dropWhile.simps rev.simps)
qed

lemma replace_all_char_single:
  "replace_all_char c [d] s = map (\<lambda>x. if x = c then d else x) s"
  by (induction s) simp_all

section \<open>pdokLookupPostalCode\<close>

lemma doc_postcode_truthy: "truthy (doc_postcode d) \<longleftrightarrow> carries_postcode d"
  by (auto simp: doc_postcode_def js_or_def carries_postcode_def)

lemma doc_postcode_field:
  "\<exists>k \<in> {''postcode'', ''postalcode'', ''pc6''}. doc_postcode d = opt_get d k"
  by (simp add: doc_postcode_def js_or_def)

lemma first_postcode_None: "first_postcode ds = None \<longleftrightarrow> (\<forall>d \<in> set ds. \<not> carries_postcode d)"
  by (induction ds) (auto simp: Let_def doc_postcode_truthy)

lemma first_postcode_exists:
  "(\<exists>d \<in> set ds. carries_postcode d) \<longleftrightarrow> first_postcode ds \<noteq> None"
  by (simp add: first_postcode_None)

lemma first_postcode_Some:
  "first_postcode ds = Some p \<Longrightarrow>
     \<exists>pre d post. ds = pre @ d # post \<and> (\<forall>x \<in> set pre. \<not> carries_postcode x) \<and>
        carries_postcode d \<and> p = doc_postcode d"
proof (induction ds)
  case Nil
  then show ?case by simp
next
  case (Cons a ds)
  show ?case
  proof (cases "carries_postcode a")
    case True
    with Cons.prems have "p = doc_postcode a" by (simp add: Let_def doc_postcode_truthy)
    with True have "a # ds = [] @ a # ds \<and> (\<forall>x \<in> set []. \<not> carries_postcode x) \<and>
        carries_postcode a \<and> p = doc_postcode a" by simp
    then show ?thesis by blast
  next
    case False
    with Cons.prems have "first_postcode ds = Some p" by (simp add: Let_def doc_postcode_truthy)
    from Cons.IH [OF this] obtain pre d post where
      h: "ds = pre @ d # post" "\<forall>x \<in> set pre. \<not> carries_postcode x"
         "carries_postcode d" "p = doc_postcode d" by blast
    with False have "a # ds = (a # pre) @ d # post \<and> (\<forall>x \<in> set (a # pre). \<not> carries_postcode x) \<and>
        carries_postcode d \<and> p = doc_postcode d" by simp
    then show ?thesis by blast
  qed
qed

lemma pdok_result:
  assumes "request (pdok_lookup_url (pdok_query street houseNumber city)) = Inr r"
  shows "pdokLookupPostalCode request street houseNumber city =
     (if \<not> resp_ok r then Inl (PdokRequestFailed (resp_status r))
      else case resp_json r of
             Inl e \<Rightarrow> Inl e
           | Inr responseData \<Rightarrow>
               (case iterate (response_docs responseData) of
                  Inl e \<Rightarrow> Inl e
                | Inr docs \<Rightarrow>
                    (case first_postcode docs of
                       Some postcode \<Rightarrow> Inr postcode
                     | None \<Rightarrow> Inl (PdokNoPostcode (pdok_query street houseNumber city)))))"
  using assms by (simp add: pdokLookupPostalCode_def Let_def)

lemma pdok_throws_iff:
  assumes "request (pdok_lookup_url (pdok_query street houseNumber city)) = Inr r"
  shows "isl (pdokLookupPostalCode request street houseNumber city) \<longleftrightarrow>
     \<not> resp_ok r \<or> \<not> (\<exists>d \<in> set (candidate_docs r). carries_postcode d)"
proof -
  note R = pdok_result [of request street houseNumber city r, OF assms]
  show ?thesis
  proof (cases "resp_json r")
    case (Inl e)
    then show ?thesis unfolding R candidate_docs_def by simp
  next
    case data: (Inr responseData)
    show ?thesis
    proof (cases "iterate (response_docs responseData)")
      case (Inl e)
      with data show ?thesis unfolding R candidate_docs_def by simp
    next
      case (Inr docs)
      with data have c: "candidate_docs r = docs" by (simp add: candidate_docs_def)
      show ?thesis
      proof (cases "first_postcode docs")
        case None
        then have "\<not> (\<exists>d \<in> set docs. carries_postcode d)" by (simp add: first_postcode_None)
        with None data Inr show ?thesis unfolding R c by simp
      next
        case (Some postcode)
        then have "\<exists>d \<in> set docs. carries_postcode d"
          using first_postcode_None [of docs] by simp
        with Some data Inr show ?thesis unfolding R c by simp
      qed
    qed
  qed
qed

lemma pdok_returns:
  assumes "request (pdok_lookup_url (pdok_query street houseNumber city)) = Inr r"
    and "pdokLookupPostalCode request street houseNumber city = Inr p"
  shows "resp_ok r \<and> first_postcode (candidate_docs r) = Some p"
  using assms(2) unfolding pdok_result [of request street houseNumber city r, OF assms(1)] candidate_docs_def
  by (auto split: sum.splits option.splits if_splits)

lemma stub_lookup:
  "pdokLookupPostalCode (\<lambda>url. Inr stub_response) ''Kerkstraat'' ''12'' ''Amsterdam'' =
     Inr (JStr ''1017GB'')"
  by (simp add: pdokLookupPostalCode_def Let_def stub_response_def response_docs_def js_or_def
      doc_postcode_def)

text \<open>
  C6. Given the response \<open>r\<close> of the HTTP request, \<open>pdokLookupPostalCode\<close> throws exactly
  when \<open>r\<close> has a non-success status or no candidate doc of \<open>r\<close> carries a postal code under
  \<open>postcode\<close>, \<open>postalcode\<close> or \<open>pc6\<close>; otherwise it returns the postal code of the first doc
  that carries one, read from one of those fields. For the stub
  \<open>{response:{docs:[{pc6:"1017GB"}]}}\<close> with Kerkstraat 12, Amsterdam it returns \<open>"1017GB"\<close>.
\<close>

theorem pdokLookupPostalCode_spec:
  "(request (pdok_lookup_url (pdok_query street houseNumber city)) = Inr r \<longrightarrow>
      (isl (pdokLookupPostalCode request street houseNumber city) \<longleftrightarrow>
         \<not> resp_ok r \<or> \<not> (\<exists>d \<in> set (candidate_docs r). carries_postcode d)) \<and>
      (\<forall>p. pdokLookupPostalCode request street houseNumber city = Inr p \<longrightarrow>
         (\<exists>pre d post. candidate_docs r = pre @ d # post \<and>
            (\<forall>x \<in> set pre. \<not> carries_postcode x) \<and> carries_postcode d \<and>
            truthy p \<and> (\<exists>k \<in> {''postcode'', ''postalcode'', ''pc6''}. p = opt_get d k)))) \<and>
   pdokLookupPostalCode (\<lambda>url. Inr stub_response) ''Kerkstraat'' ''12'' ''Amsterdam'' =
     Inr (JStr ''1017GB'')"
proof (intro conjI impI allI)
  assume a: "request (pdok_lookup_url (pdok_query street houseNumber city)) = Inr r"
  then show "isl (pdokLookupPostalCode request street houseNumber city) \<longleftrightarrow>
      \<not> resp_ok r \<or> \<not> (\<exists>d \<in> set (candidate_docs r). carries_postcode d)"
    by (rule pdok_throws_iff)
  fix p
  assume "pdokLookupPostalCode request street houseNumber city = Inr p"
  with a have "first_postcode (candidate_docs r) = Some p" by (simp add: pdok_returns)
  from first_postcode_Some [OF this] obtain pre d post where
    h: "candidate_docs r = pre @ d # post" "\<forall>x \<in> set pre. \<not> carries_postcode x"
       "carries_postcode d" "p = doc_postcode d" by blast
  from h(3,4) have t: "truthy p" by (simp add: doc_postcode_truthy)
  from h(4) doc_postcode_field [of d]
  have k: "\<exists>k \<in> {''postcode'', ''postalcode'', ''pc6''}. p = opt_get d k" by simp
  from h t k show "\<exists>pre d post. candidate_docs r = pre @ d # post \<and>
      (\<forall>x \<in> set pre. \<not> carries_postcode x) \<and> carries_postcode d \<and>
      truthy p \<and> (\<exists>k \<in> {''postcode'', ''postalcode'', ''pc6''}. p = opt_get d k)"
    by blast
next
  show "pdokLookupPostalCode (\<lambda>url. Inr stub_response) ''Kerkstraat'' ''12'' ''Amsterdam'' =
      Inr (JStr ''1017GB'')"
    by (rule stub_lookup)
qed

theorem pdokLookupPostalCode_spec_witness:
  "\<not> isl (pdokLookupPostalCode (\<lambda>url. Inr stub_response) ''Kerkstraat'' ''12'' ''Amsterdam'') \<and>
   resp_ok stub_response \<and>
   candidate_docs stub_response = [JObj [(''pc6'', JStr ''1017GB'')]] \<and>
   carries_postcode (JObj [(''pc6'', JStr ''1017GB'')]) \<and>
   isl (pdokLookupPostalCode (\<lambda>url. Inr (stub_response\<lparr>resp_ok := False, resp_status := 503\<rparr>))
          ''Kerkstraat'' ''12'' ''Amsterdam'')"
proof -
  have c: "candidate_docs stub_response = [JObj [(''pc6'', JStr ''1017GB'')]]"
    by (simp add: candidate_docs_def stub_response_def response_docs_def js_or_def)
  have d: "carries_postcode (JObj [(''pc6'', JStr ''1017GB'')])"
    by (simp add: carries_postcode_def)
  have o: "resp_ok stub_response" by (simp add: stub_response_def)
  have "\<not> isl (pdokLookupPostalCode (\<lambda>url. Inr stub_response) ''Kerkstraat'' ''12'' ''Amsterdam'')"
    using pdokLookupPostalCode_spec [of "\<lambda>url. Inr stub_response" "''Kerkstraat''" "''12''"
        "''Amsterdam''" stub_response, THEN conjunct1] c d o
    by simp
  moreover
  have "isl (pdokLookupPostalCode (\<lambda>url. Inr (stub_response\<lparr>resp_ok := False, resp_status := 503\<rparr>))
          ''Kerkstraat'' ''12'' ''Amsterdam'')"
    using pdokLookupPostalCode_spec [of
        "\<lambda>url. Inr (stub_response\<lparr>resp_ok := False, resp_status := 503\<rparr>)" "''Kerkstraat''" "''12''"
        "''Amsterdam''" "stub_response\<lparr>resp_ok := False, resp_status := 503\<rparr>", THEN conjunct1]
    by simp
  ultimately show ?thesis using c d o by simp
qed

section \<open>requireEnv and formatDateToDutchLocale\<close>

text \<open>
  C9. \<open>requireEnv(name)\<close> throws the error naming the variable exactly when the variable is
  unset, empty or made of whitespace only; otherwise it returns the trimmed value: the
  value without a whitespace prefix and a whitespace suffix, neither starting nor ending
  with whitespace.
\<close>

theorem requireEnv_spec:
  "(requireEnv env name = Inl (MissingEnvVar name) \<longleftrightarrow>
      (env name = None \<or> (\<exists>v. env name = Some v \<and> (\<forall>c \<in> set v. is_js_whitespace c)))) \<and>
   (\<forall>v. env name = Some v \<and> \<not> (\<forall>c \<in> set v. is_js_whitespace c) \<longrightarrow>
      requireEnv env name = Inr (trim v) \<and>
      (\<exists>pre post. v = pre @ trim v @ post \<and>
         (\<forall>c \<in> set pre. is_js_whitespace c) \<and> (\<forall>c \<in> set post. is_js_whitespace c)) \<and>
      trim v \<noteq> [] \<and>
      \<not> is_js_whitespace (hd (trim v)) \<and> \<not> is_js_whitespace (last (trim v))) \<and>
   (\<forall>e. requireEnv env name = Inl e \<longrightarrow> e = MissingEnvVar name)"
proof (cases "env name")
  case None
  then show ?thesis by (simp add: requireEnv_def)
next
  case (Some v)
  show ?thesis
  proof (cases "\<forall>c \<in> set v. is_js_whitespace c")
    case True
    then have "trim v = []" by (simp add: trim_empty_iff)
    with Some True show ?thesis by (simp add: requireEnv_def)
  next
    case False
    then have t: "trim v \<noteq> []" by (simp add: trim_empty_iff)
    have v: "v \<noteq> []"
    proof
      assume "v = []"
      then have "trim v = []" by (simp add: trim_def)
      with t show False by simp
    qed
    from t v Some have r: "requireEnv env name = Inr (trim v)" by (simp add: requireEnv_def)
    from trim_ends [OF t] trim_split [of v] t r Some False show ?thesis by simp
  qed
qed

theorem requireEnv_spec_witness:
  "requireEnv [''LOGIN_EMAIL'' \<mapsto> ''  a@b.nl '', ''EMPTY'' \<mapsto> ''   ''] ''LOGIN_EMAIL'' = Inr ''a@b.nl'' \<and>
   requireEnv [''LOGIN_EMAIL'' \<mapsto> ''  a@b.nl '', ''EMPTY'' \<mapsto> ''   ''] ''EMPTY'' = Inl (MissingEnvVar ''EMPTY'') \<and>
   requireEnv [''LOGIN_EMAIL'' \<mapsto> ''  a@b.nl '', ''EMPTY'' \<mapsto> ''   ''] ''UNSET'' = Inl (MissingEnvVar ''UNSET'')"
proof -
  let ?env = "[''LOGIN_EMAIL'' \<mapsto> ''  a@b.nl '', ''EMPTY'' \<mapsto> ''   '']"
  have t: "trim ''  a@b.nl '' = ''a@b.nl''" by (simp add: trim_def is_js_whitespace_def)
  have "requireEnv ?env ''LOGIN_EMAIL'' = Inr (trim ''  a@b.nl '')"
    using requireEnv_spec [of ?env "''LOGIN_EMAIL''", THEN conjunct2, THEN conjunct1,
        THEN spec, of "''  a@b.nl ''"]
    by (simp add: is_js_whitespace_def)
  moreover have "requireEnv ?env ''EMPTY'' = Inl (MissingEnvVar ''EMPTY'')"
    using requireEnv_spec [of ?env "''EMPTY''", THEN conjunct1]
    by (simp add: is_js_whitespace_def)
  moreover have "requireEnv ?env ''UNSET'' = Inl (MissingEnvVar ''UNSET'')"
    using requireEnv_spec [of ?env "''UNSET''", THEN conjunct1] by simp
  ultimately show ?thesis using t by simp
qed

text \<open>
  C10. \<open>formatDateToDutchLocale(s)\<close> is \<open>s\<close> with every \<open>.\<close> replaced by \<open>-\<close>, whatever the
  shape of \<open>s\<close>; so it keeps the length, leaves no \<open>.\<close>, is idempotent, and is the
  identity on a string without \<open>.\<close>.
\<close>

theorem formatDateToDutchLocale_spec:
  "formatDateToDutchLocale s = map (\<lambda>x. if x = CHR ''.'' then CHR ''-'' else x) s \<and>
   length (formatDateToDutchLocale s) = length s \<and>
   CHR ''.'' \<notin> set (formatDateToDutchLocale s) \<and>
   formatDateToDutchLocale (formatDateToDutchLocale s) = formatDateToDutchLocale s \<and>
   (CHR ''.'' \<notin> set s \<longrightarrow> formatDateToDutchLocale s = s)"
proof -
  let ?f = "\<lambda>x. if x = CHR ''.'' then CHR ''-'' else x"
  have m: "\<And>t. formatDateToDutchLocale t = map ?f t"
    by (simp add: formatDateToDutchLocale_def replace_all_char_single)
  have i: "map ?f (map ?f s) = map ?f s" by simp
  have n: "CHR ''.'' \<notin> set (map ?f s)" by auto
  have d: "CHR ''.'' \<notin> set s \<longrightarrow> map ?f s = s" by (induction s) auto
  from i n d show ?thesis unfolding m by simp
qed

theorem formatDateToDutchLocale_spec_witness:
  "formatDateToDutchLocale ''01.02.2025'' = ''01-02-2025'' \<and>
   formatDateToDutchLocale ''a..b.'' = ''a--b-'' \<and>
   formatDateToDutchLocale ''01-02-2025'' = ''01-02-2025''"
proof -
  have "formatDateToDutchLocale ''01.02.2025'' = ''01-02-2025''"
    using formatDateToDutchLocale_spec [of "''01.02.2025''"] by simp
  moreover have "formatDateToDutchLocale ''a..b.'' = ''a--b-''"
    using formatDateToDutchLocale_spec [of "''a..b.''"] by simp
  moreover have "formatDateToDutchLocale ''01-02-2025'' = ''01-02-2025''"
    using formatDateToDutchLocale_spec [of "''01-02-2025''"] by simp
  ultimately show ?thesis by simp
qed

section \<open>Running programs step by step\<close>

lemma perform_eq: "perform b c (s, tr) = (fst (act b c s), (snd (act b c s), tr @ [c]))"
  by (simp add: perform_def split: prod.splits)



lemma console_log_eq: "console_log m (s, tr) = (Inr (), (s, tr @ [ConsoleLog m]))"
  by (simp add: console_log_def)



lemma seq_cases:
  "seq m n st = (case m st of (Inl e, st1) \<Rightarrow> (Inl e, st1) | (Inr u, st1) \<Rightarrow> n st1)"
  by (simp add: seq_def bind_value_def)

lemma try_catch_cases:
  "try_catch p q st = (case p st of (Inl e, st1) \<Rightarrow> q st1 | (Inr x, st1) \<Rightarrow> (Inr x, st1))"
  by (simp add: try_catch_def)

lemma seq_Inr: "m st = (Inr u, st1) \<Longrightarrow> seq m n st = n st1"
  by (simp add: seq_cases)

lemma seq_Inl: "m st = (Inl e, st1) \<Longrightarrow> seq m n st = (Inl e, st1)"
  by (simp add: seq_cases)

lemma try_catch_Inr: "p st = (Inr x, st1) \<Longrightarrow> try_catch p q st = (Inr x, st1)"
  by (simp add: try_catch_cases)

lemma try_catch_Inl: "p st = (Inl e, st1) \<Longrightarrow> try_catch p q st = q st1"
  by (simp add: try_catch_cases)

lemma seq_eq_Inr_iff:
  "seq m n st = (Inr x, st') \<longleftrightarrow> (\<exists>st1. m st = (Inr (), st1) \<and> n st1 = (Inr x, st'))"
  by (auto simp: seq_cases split: prod.splits sum.splits)


lemma try_catch_eq_Inr_iff:
  "try_catch p q st = (Inr x, st') \<longleftrightarrow>
     p st = (Inr x, st') \<or> (\<exists>e st1. p st = (Inl e, st1) \<and> q st1 = (Inr x, st'))"
  by (auto simp: try_catch_cases split: prod.splits sum.splits)

lemma perform_eq_iff:
  "perform b c (s, tr) = (r, st') \<longleftrightarrow> (\<exists>s'. act b c s = (r, s') \<and> st' = (s', tr @ [c]))"
  by (auto simp: perform_def split: prod.splits)



section \<open>clickProceed\<close>

lemma clickProceed_not_visible:
  assumes "act b (ExpectToBeVisible (proceed_button t) (Some 10000)) s = (Inl e, s1)"
  shows "clickProceed b (Some t) (s, tr) =
     (Inl e, (s1, tr @ [ExpectToBeVisible (proceed_button t) (Some 10000)]))"
  using assms by (simp add: clickProceed_def Let_def seq_cases perform_eq)

lemma clickProceed_not_enabled:
  assumes "act b (ExpectToBeVisible (proceed_button t) (Some 10000)) s = (Inr (), s1)"
    and "act b (ExpectToBeEnabled (proceed_button t) (Some 10000)) s1 = (Inl e, s2)"
  shows "clickProceed b (Some t) (s, tr) =
     (Inl e, (s2, tr @ [ExpectToBeVisible (proceed_button t) (Some 10000),
                         ExpectToBeEnabled (proceed_button t) (Some 10000)]))"
  using assms by (simp add: clickProceed_def Let_def seq_cases perform_eq)

lemma clickProceed_returns:
  "clickProceed b (Some t) (s, tr) = (Inr (), (s', tr')) \<longleftrightarrow>
   (\<exists>s1 s2 s3 s4 s5 fb.
     act b (ExpectToBeVisible (proceed_button t) (Some 10000)) s = (Inr (), s1) \<and>
     act b (ExpectToBeEnabled (proceed_button t) (Some 10000)) s1 = (Inr (), s2) \<and>
     act b (ScrollIntoViewIfNeeded (proceed_button t)) s2 = (Inr (), s3) \<and>
     (fb = [] \<and> act b (Click (proceed_button t) (Some 10000)) s3 = (Inr (), s4) \<or>
      fb = [ConsoleLog (click_failed_message t), EvaluateClick (proceed_button t)] \<and>
        isl (fst (act b (Click (proceed_button t) (Some 10000)) s3)) \<and>
        act b (EvaluateClick (proceed_button t))
          (snd (act b (Click (proceed_button t) (Some 10000)) s3)) = (Inr (), s4)) \<and>
     act b (WaitForLoadState ''networkidle'') s4 = (Inr (), s5) \<and>
     act b (WaitForTimeout 250) s5 = (Inr (), s') \<and>
     tr' = tr @ [ExpectToBeVisible (proceed_button t) (Some 10000),
                 ExpectToBeEnabled (proceed_button t) (Some 10000),
                 ScrollIntoViewIfNeeded (proceed_button t),
                 Click (proceed_button t) (Some 10000)] @ fb @
                [WaitForLoadState ''networkidle'', WaitForTimeout 250])"
  (is "?L \<longleftrightarrow> ?R")
proof
  assume ?L
  then show ?R
    apply (simp add: clickProceed_def Let_def waitForStableLoad_def seq_eq_Inr_iff
        try_catch_eq_Inr_iff perform_eq_iff console_log_eq)
    apply (elim exE conjE disjE)
     apply auto
    done
next
  assume ?R
  then show ?L
    apply (elim exE conjE disjE)
     apply (auto simp: clickProceed_def Let_def waitForStableLoad_def seq_cases
        try_catch_cases perform_eq console_log_eq isl_def split: prod.splits sum.splits)
    done
qed

text \<open>
  C5. \<open>clickProceed(page, buttonText)\<close> takes the last button of that name
  (\<open>'Next'\<close> by default) and asserts it visible, then enabled, each within 10000 ms: when
  either assertion throws, the operation throws and the log holds no click. It returns
  exactly when both assertions and the scroll succeed, the click succeeds or, the click
  having thrown, the DOM \<open>click()\<close> evaluated on the element succeeds, and then both waits
  of \<open>waitForStableLoad\<close> succeed; these are its calls, in this order.
\<close>

theorem clickProceed_spec:
  "(\<forall>e s1. act b (ExpectToBeVisible (proceed_button t) (Some 10000)) s = (Inl e, s1) \<longrightarrow>
      clickProceed b (Some t) (s, tr) =
        (Inl e, (s1, tr @ [ExpectToBeVisible (proceed_button t) (Some 10000)]))) \<and>
   (\<forall>e s1 s2.
      act b (ExpectToBeVisible (proceed_button t) (Some 10000)) s = (Inr (), s1) \<and>
      act b (ExpectToBeEnabled (proceed_button t) (Some 10000)) s1 = (Inl e, s2) \<longrightarrow>
      clickProceed b (Some t) (s, tr) =
        (Inl e, (s2, tr @ [ExpectToBeVisible (proceed_button t) (Some 10000),
                            ExpectToBeEnabled (proceed_button t) (Some 10000)]))) \<and>
   (\<forall>s' tr'. clickProceed b (Some t) (s, tr) = (Inr (), (s', tr')) \<longleftrightarrow>
      (\<exists>s1 s2 s3 s4 s5 fb.
         act b (ExpectToBeVisible (proceed_button t) (Some 10000)) s = (Inr (), s1) \<and>
         act b (ExpectToBeEnabled (proceed_button t) (Some 10000)) s1 = (Inr (), s2) \<and>
         act b (ScrollIntoViewIfNeeded (proceed_button t)) s2 = (Inr (), s3) \<and>
         (fb = [] \<and> act b (Click (proceed_button t) (Some 10000)) s3 = (Inr (), s4) \<or>
          fb = [ConsoleLog (click_failed_message t), EvaluateClick (proceed_button t)] \<and>
            isl (fst (act b (Click (proceed_button t) (Some 10000)) s3)) \<and>
            act b (EvaluateClick (proceed_button t))
              (snd (act b (Click (proceed_button t) (Some 10000)) s3)) = (Inr (), s4)) \<and>
         act b (WaitForLoadState ''networkidle'') s4 = (Inr (), s5) \<and>
         act b (WaitForTimeout 250) s5 = (Inr (), s') \<and>
         tr' = tr @ [ExpectToBeVisible (proceed_button t) (Some 10000),
                     ExpectToBeEnabled (proceed_button t) (Some 10000),
                     ScrollIntoViewIfNeeded (proceed_button t),
                     Click (proceed_button t) (Some 10000)] @ fb @
                    [WaitForLoadState ''networkidle'', WaitForTimeout 250])) \<and>
   clickProceed b None = clickProceed b (Some ''Next'') \<and>
   proceed_button t = Last (GetByRole Page ''button'' (Text t) False)"
proof (intro conjI allI impI)
  fix e s1
  assume "act b (ExpectToBeVisible (proceed_button t) (Some 10000)) s = (Inl e, s1)"
  then show "clickProceed b (Some t) (s, tr) =
      (Inl e, (s1, tr @ [ExpectToBeVisible (proceed_button t) (Some 10000)]))"
    by (rule clickProceed_not_visible)
next
  fix e s1 s2
  assume "act b (ExpectToBeVisible (proceed_button t) (Some 10000)) s = (Inr (), s1) \<and>
      act b (ExpectToBeEnabled (proceed_button t) (Some 10000)) s1 = (Inl e, s2)"
  then show "clickProceed b (Some t) (s, tr) =
      (Inl e, (s2, tr @ [ExpectToBeVisible (proceed_button t) (Some 10000),
                          ExpectToBeEnabled (proceed_button t) (Some 10000)]))"
    by (simp add: clickProceed_not_enabled)
next
  fix s' tr'
  show "clickProceed b (Some t) (s, tr) = (Inr (), (s', tr')) \<longleftrightarrow>
      (\<exists>s1 s2 s3 s4 s5 fb.
         act b (ExpectToBeVisible (proceed_button t) (Some 10000)) s = (Inr (), s1) \<and>
         act b (ExpectToBeEnabled (proceed_button t) (Some 10000)) s1 = (Inr (), s2) \<and>
         act b (ScrollIntoViewIfNeeded (proceed_button t)) s2 = (Inr (), s3) \<and>
         (fb = [] \<and> act b (Click (proceed_button t) (Some 10000)) s3 = (Inr (), s4) \<or>
          fb = [ConsoleLog (click_failed_message t), EvaluateClick (proceed_button t)] \<and>
            isl (fst (act b (Click (proceed_button t) (Some 10000)) s3)) \<and>
            act b (EvaluateClick (proceed_button t))
              (snd (act b (Click (proceed_button t) (Some 10000)) s3)) = (Inr (), s4)) \<and>
         act b (WaitForLoadState ''networkidle'') s4 = (Inr (), s5) \<and>
         act b (WaitForTimeout 250) s5 = (Inr (), s') \<and>
         tr' = tr @ [ExpectToBeVisible (proceed_button t) (Some 10000),
                     ExpectToBeEnabled (proceed_button t) (Some 10000),
                     ScrollIntoViewIfNeeded (proceed_button t),
                     Click (proceed_button t) (Some 10000)] @ fb @
                    [WaitForLoadState ''networkidle'', WaitForTimeout 250])"
    by (rule clickProceed_returns)
next
  show "clickProceed b None = clickProceed b (Some ''Next'')"
    by (simp add: clickProceed_def)
next
  show "proceed_button t = Last (GetByRole Page ''button'' (Text t) False)"
    by (simp add: proceed_button_def)
qed

theorem clickProceed_spec_witness:
  "clickProceed plain_page (Some ''Next'') ([], []) =
     (Inr (), ([], [ExpectToBeVisible (proceed_button ''Next'') (Some 10000),
                    ExpectToBeEnabled (proceed_button ''Next'') (Some 10000),
                    ScrollIntoViewIfNeeded (proceed_button ''Next''),
                    Click (proceed_button ''Next'') (Some 10000),
                    WaitForLoadState ''networkidle'', WaitForTimeout 250])) \<and>
   clickProceed
     (scripted_page (\<lambda>c. c = ExpectToBeEnabled (proceed_button ''Next'') (Some 10000)) True None (\<lambda>v. v))
     (Some ''Next'') ([], []) =
     (Inl (Thrown ''failed''),
      ([], [ExpectToBeVisible (proceed_button ''Next'') (Some 10000),
            ExpectToBeEnabled (proceed_button ''Next'') (Some 10000)]))"
proof -
  let ?stuck = "scripted_page
      (\<lambda>c. c = ExpectToBeEnabled (proceed_button ''Next'') (Some 10000)) True None (\<lambda>v. v)"
  have "clickProceed plain_page (Some ''Next'') ([], []) =
     (Inr (), ([], [ExpectToBeVisible (proceed_button ''Next'') (Some 10000),
                    ExpectToBeEnabled (proceed_button ''Next'') (Some 10000),
                    ScrollIntoViewIfNeeded (proceed_button ''Next''),
                    Click (proceed_button ''Next'') (Some 10000),
                    WaitForLoadState ''networkidle'', WaitForTimeout 250]))"
    using clickProceed_spec [of plain_page "''Next''" "[]" "[]", THEN conjunct2, THEN conjunct2,
        THEN conjunct1]
    by (simp add: plain_page_def scripted_page_def)
  moreover have "clickProceed ?stuck (Some ''Next'') ([], []) =
     (Inl (Thrown ''failed''),
      ([], [ExpectToBeVisible (proceed_button ''Next'') (Some 10000),
            ExpectToBeEnabled (proceed_button ''Next'') (Some 10000)]))"
    using clickProceed_spec [of ?stuck "''Next''" "[]" "[]", THEN conjunct2, THEN conjunct1]
    by (simp add: scripted_page_def)
  ultimately show ?thesis by simp
qed

section \<open>Which calls a program can make\<close>















section \<open>setInputValue and fillTextByLabel\<close>










section \<open>The raw-DOM strategy of fillTextByLabel\<close>






section \<open>Filling the same field twice\<close>


















text \<open>The page that normalises a postal code on losing the focus meets both assumptions
  at a value that is already normalised.\<close>

lemma static_page_normalising_page: "static_page normalising_page"
  by (auto simp: static_page_def normalising_page_def scripted_page_def split: call.splits)

lemma form_fields_normalising_page: "form_fields normalising_page ''1017 GB''"
  by (auto simp: form_fields_def normalising_page_def scripted_page_def value_in_def
      split: call.splits)



section \<open>Selecting an option\<close>







text \<open>
  C4 at a failing input. The last strategy of \<open>selectMatOption\<close>, which the source
  comments as a text lookup anywhere in the option list, is the locator \<open>text="\<dots>"\<close>
  rooted at \<open>page\<close>. On the page with a paragraph showing the text before the open list
  of plain items, the first two strategies throw, the text locator resolves to the
  paragraph, and the operation clicks it and returns: the element clicked lies outside
  the option list, although the list holds an item with that text. Where the options have
  the role \<open>option\<close>, the first strategy clicks the item of the list.
\<close>

theorem selectMatOption_clicks_outside_list:
  "selectMatOption (dom_page country_page) ''Slovakia'' ([], []) =
     (Inr (), ([0], [WaitForVisible (role_option ''Slovakia'') 1000,
                     WaitForVisible (mat_option ''Slovakia'') 1000,
                     WaitForVisible (text_option ''Slovakia'') 1000,
                     Click (text_option ''Slovakia'') None])) \<and>
   \<not> el_in_option_list (country_page ! 0) \<and>
   el_in_option_list (country_page ! 2) \<and> el_text (country_page ! 2) = ''Slovakia'' \<and>
   selectMatOption (dom_page material_page) ''Slovakia'' ([], []) =
     (Inr (), ([1], [WaitForVisible (role_option ''Slovakia'') 1000,
                     Click (role_option ''Slovakia'') (Some 1000)])) \<and>
   el_in_option_list (material_page ! 1)"
  by (simp add: selectMatOption_def select_option_by_role_def select_option_by_mat_option_def
      select_option_by_text_def Let_def try_catch_cases seq_cases perform_eq dom_page_def
      country_page_def material_page_def role_option_def mat_option_def text_option_def)


section \<open>setCheckboxByLabel\<close>

text \<open>
  C3 at a failing input. On the page with the custom checkbox component, already checked,
  the two \<open>check()\<close> strategies throw, the component-library strategy clicks the label
  inside \<open>bq-checkbox\<close>, and the operation returns with the checkbox unchecked: a click
  toggles, and nothing reads the state afterwards. Where a native checkbox resolves, the
  first strategy's \<open>check()\<close> leaves the checked box checked.
\<close>

theorem setCheckboxByLabel_unchecks:
  "setCheckboxByLabel custom_checkbox_page (Text ''I agree'') (True, []) =
     (Inr (), (False,
        [Check (checkbox_role (Text ''I agree'')) (Some 1000),
         Check (checkbox_label_field (Text ''I agree'')) (Some 1000),
         WaitForVisible (checkbox_container (Text ''I agree'')) 1000,
         Click (checkbox_container_label (Text ''I agree'')) (Some 1000)])) \<and>
   setCheckboxByLabel native_checkbox_page (Text ''I agree'') (True, []) =
     (Inr (), (True, [Check (checkbox_role (Text ''I agree'')) (Some 1000)]))"
  by (simp add: setCheckboxByLabel_def checkbox_by_role_def checkbox_by_label_def
      checkbox_by_component_def try_catch_cases seq_cases perform_eq custom_checkbox_page_def
      checkbox_page_def native_checkbox_page_def)

section \<open>The strategy chains\<close>

lemma strategy_of_locators [simp]:
  "strategy_of (label_field labelText) = AccessibleRole"
  "strategy_of (raw_label labelText) = RawDOM"
  "strategy_of (raw_input (raw_label labelText) a) = RawDOM"
  "strategy_of (role_option optionText) = AccessibleRole"
  "strategy_of (mat_option optionText) = ComponentLibrary"
  "strategy_of (text_option optionText) = RawDOM"
  "strategy_of (select_container labelText) = ComponentLibrary"
  "strategy_of (select_trigger labelText) = ComponentLibrary"
  "strategy_of (radio_role_option groupLabel optionText) = AccessibleRole"
  "strategy_of (radio_container groupLabel) = ComponentLibrary"
  "strategy_of (radio_option_label groupLabel optionText) = ComponentLibrary"
  "strategy_of (checkbox_role m) = AccessibleRole"
  "strategy_of (checkbox_label_field m) = AccessibleRole"
  "strategy_of (checkbox_container m) = ComponentLibrary"
  "strategy_of (checkbox_container_label m) = ComponentLibrary"
  "strategy_of (checkbox_raw_label m) = RawDOM"
  "strategy_of (checkbox_raw_input (checkbox_raw_label m) a) = RawDOM"
  "strategy_of (Locator Page (''#'' @ f) None None) = RawDOM"
  by (simp_all add: label_field_def raw_label_def raw_input_def role_option_def mat_option_def
      text_option_def select_container_def select_trigger_def radio_role_option_def
      radio_container_def radio_option_label_def checkbox_role_def checkbox_label_field_def
      checkbox_container_def checkbox_container_label_def checkbox_raw_label_def
      checkbox_raw_input_def component_tags_def)





















end
